theory Spec2Isabelle
  imports Complex_Main
begin

section \<open>Strange Attractor: the attractor models\<close>

text \<open>
  A shallow embedding of \<^verbatim>\<open>software/contrib/strange_attractor.py\<close>.

  Numbers. The coordinates, parameters, bounds and scaled values of the script are
  Python floats (mixed with small ints); they are modelled as exact reals, so every
  statement below is about the arithmetic the code writes down, not about rounding.
  The one arithmetic failure the code can raise, a division by zero, is a value of the
  model: \<open>Inl ZeroDivisionError\<close>.
\<close>

datatype py_error = ZeroDivisionError | IndexError

text \<open>
  The class hierarchy is closed: \<open>Attractor\<close> (whose \<open>step\<close> is \<open>pass\<close>) and its
  four subclasses, each with the parameters its constructor stores:
  \<open>Lorenz s r b\<close>, \<open>PanXuZhou a b c\<close>, \<open>Rossler a b c\<close>, \<open>Rikitake a mu\<close>.
\<close>

datatype system =
    Base
  | Lorenz real real real
  | PanXuZhou real real real
  | Rossler real real real
  | Rikitake real real

record attractor =
  initial_state :: "real \<times> real \<times> real"
  x :: real
  y :: real
  z :: real
  dt :: real
  name :: string
  x_min :: real
  y_min :: real
  z_min :: real
  x_max :: real
  y_max :: real
  z_max :: real
  x_range :: real
  y_range :: real
  z_range :: real
  system :: system

text \<open>\<open>Attractor.__init__(self, point, dt, name)\<close>.\<close>

definition Attractor_init :: "real \<times> real \<times> real \<Rightarrow> real \<Rightarrow> string \<Rightarrow> attractor" where
  "Attractor_init point dt0 nm =
     (case point of (p0, p1, p2) \<Rightarrow>
       \<lparr> initial_state = point,
         x = p0, y = p1, z = p2,
         dt = dt0,
         name = nm,
         x_min = p0, y_min = p1, z_min = p2,
         x_max = p0, y_max = p1, z_max = p2,
         x_range = 100, y_range = 100, z_range = 100,
         system = Base \<rparr>)"

text \<open>The subclass constructors: \<open>super().__init__(point, dt, name)\<close>, then the parameters.\<close>

definition Lorenz_init :: "real \<times> real \<times> real \<Rightarrow> real \<times> real \<times> real \<Rightarrow> real \<Rightarrow> attractor" where
  "Lorenz_init point params dt0 =
     (case params of (q0, q1, q2) \<Rightarrow>
        (Attractor_init point dt0 ''Lorenz'') \<lparr> system := Lorenz q0 q1 q2 \<rparr>)"

definition PanXuZhou_init :: "real \<times> real \<times> real \<Rightarrow> real \<times> real \<times> real \<Rightarrow> real \<Rightarrow> attractor" where
  "PanXuZhou_init point params dt0 =
     (case params of (q0, q1, q2) \<Rightarrow>
        (Attractor_init point dt0 ''Pan-Xu-Zhou'') \<lparr> system := PanXuZhou q0 q1 q2 \<rparr>)"

definition Rossler_init :: "real \<times> real \<times> real \<Rightarrow> real \<times> real \<times> real \<Rightarrow> real \<Rightarrow> attractor" where
  "Rossler_init point params dt0 =
     (case params of (q0, q1, q2) \<Rightarrow>
        (Attractor_init point dt0 ''Rossler'') \<lparr> system := Rossler q0 q1 q2 \<rparr>)"

definition Rikitake_init :: "real \<times> real \<times> real \<Rightarrow> real \<times> real \<Rightarrow> real \<Rightarrow> attractor" where
  "Rikitake_init point params dt0 =
     (case params of (q0, q1) \<Rightarrow>
        (Attractor_init point dt0 ''Rikitake'') \<lparr> system := Rikitake q0 q1 \<rparr>)"

text \<open>The constructors' default arguments.\<close>

definition Lorenz_default :: attractor where
  "Lorenz_default = Lorenz_init (0, 1, 1.05) (10, 28, 2.667) 0.01"

definition PanXuZhou_default :: attractor where
  "PanXuZhou_default = PanXuZhou_init (1, 1, 1) (10, 2.667, 16) 0.01"

definition Rossler_default :: attractor where
  "Rossler_default = Rossler_init (0.1, 0, - 0.1) (0.13, 0.2, 6.5) 0.01"

definition Rikitake_default :: attractor where
  "Rikitake_default = Rikitake_init (0.1, 0, - 0.1) (5, 2) 0.01"

definition get_attractors :: "attractor list" where
  "get_attractors = [Lorenz_default, PanXuZhou_default, Rikitake_default, Rossler_default]"

text \<open>
  \<open>step\<close>, one method per class. As in the source, the three derivatives are bound
  first, then \<open>self.x\<close>, \<open>self.y\<close>, \<open>self.z\<close> are assigned one after the other, each
  assignment reading the object the previous one left.
\<close>

definition advance :: "real \<Rightarrow> real \<Rightarrow> real \<Rightarrow> attractor \<Rightarrow> attractor" where
  "advance x_dot y_dot z_dot att =
     (let att1 = att \<lparr> x := x att + x_dot * dt att \<rparr>;
          att2 = att1 \<lparr> y := y att1 + y_dot * dt att1 \<rparr>;
          att3 = att2 \<lparr> z := z att2 + z_dot * dt att2 \<rparr>
      in att3)"

definition step :: "attractor \<Rightarrow> attractor" where
  "step att =
     (case system att of
        Base \<Rightarrow> att
      | Lorenz s r b \<Rightarrow>
          (let x_dot = s * (y att - x att);
               y_dot = r * x att - y att - x att * z att;
               z_dot = x att * y att - b * z att
           in advance x_dot y_dot z_dot att)
      | PanXuZhou a b c \<Rightarrow>
          (let x_dot = a * (y att - x att);
               y_dot = c * x att - x att * z att;
               z_dot = x att * y att - b * z att
           in advance x_dot y_dot z_dot att)
      | Rossler a b c \<Rightarrow>
          (let x_dot = - (y att + z att);
               y_dot = x att + a * y att;
               z_dot = b + z att * (x att - c)
           in advance x_dot y_dot z_dot att)
      | Rikitake a mu \<Rightarrow>
          (let x_dot = - (mu * x att) + (z att * y att);
               y_dot = - (mu * y att) + x att * (z att - a);
               z_dot = 1 - (x att * y att)
           in advance x_dot y_dot z_dot att))"

text \<open>
  \<open>x_scaled\<close>, \<open>y_scaled\<close>, \<open>z_scaled\<close>: the dividend \<open>100.0 * (self.x - self.x_min)\<close> is
  a float, and dividing a float by zero raises \<open>ZeroDivisionError\<close>.
\<close>

definition py_truediv :: "real \<Rightarrow> real \<Rightarrow> py_error + real" where
  "py_truediv n d = (if d = 0 then Inl ZeroDivisionError else Inr (n / d))"

definition x_scaled :: "attractor \<Rightarrow> py_error + real" where
  "x_scaled att = py_truediv (100 * (x att - x_min att)) (x_range att)"

definition y_scaled :: "attractor \<Rightarrow> py_error + real" where
  "y_scaled att = py_truediv (100 * (y att - y_min att)) (y_range att)"

definition z_scaled :: "attractor \<Rightarrow> py_error + real" where
  "z_scaled att = py_truediv (100 * (z att - z_min att)) (z_range att)"

text \<open>
  \<open>estimate_ranges(self, steps)\<close>. \<open>track\<close> is the body of the loop after
  \<open>self.step()\<close>: six assignments, in the source's order. \<open>range(steps)\<close> is empty
  for \<open>steps \<le> 0\<close>, which \<open>nat steps\<close> gives.
\<close>

definition track :: "attractor \<Rightarrow> attractor" where
  "track att =
     (let att1 = att \<lparr> x_max := max (x att) (x_max att) \<rparr>;
          att2 = att1 \<lparr> y_max := max (y att1) (y_max att1) \<rparr>;
          att3 = att2 \<lparr> z_max := max (z att2) (z_max att2) \<rparr>;
          att4 = att3 \<lparr> x_min := min (x att3) (x_min att3) \<rparr>;
          att5 = att4 \<lparr> y_min := min (y att4) (y_min att4) \<rparr>;
          att6 = att5 \<lparr> z_min := min (z att5) (z_min att5) \<rparr>
      in att6)"

fun estimate_loop :: "nat \<Rightarrow> attractor \<Rightarrow> attractor" where
  "estimate_loop 0 att = att"
| "estimate_loop (Suc n) att = estimate_loop n (track (step att))"

definition estimate_ranges :: "attractor \<Rightarrow> int \<Rightarrow> attractor" where
  "estimate_ranges att steps =
     (let att1 = estimate_loop (nat steps) att;
          att2 = att1 \<lparr> x_range := x_max att1 - x_min att1 \<rparr>;
          att3 = att2 \<lparr> y_range := y_max att2 - y_min att2 \<rparr>;
          att4 = att3 \<lparr> z_range := z_max att3 - z_min att3 \<rparr>;
          att5 = att4 \<lparr> x := fst (initial_state att4) \<rparr>;
          att6 = att5 \<lparr> y := fst (snd (initial_state att5)) \<rparr>;
          att7 = att6 \<lparr> z := snd (snd (initial_state att6)) \<rparr>
      in att7)"

section \<open>Strange Attractor: the controller\<close>

text \<open>
  What the script takes from outside the file is a parameter of the model:
  \<^item> \<open>ticks_ms()\<close>: the value read is an argument of the function that reads it;
  \<^item> \<open>k1.read_position()\<close>, \<open>k2.read_position(steps=41)\<close>, \<open>b1.last_pressed()\<close>:
    likewise;
  \<^item> \<open>choice\<close>: the random source is a natural number, reduced to an index;
  \<^item> \<open>cv1\<close> .. \<open>cv6\<close>: the values written by one \<open>update\<close> are returned in a record;
  \<^item> the display (\<open>oled\<close>) is not modelled: \<open>update_screen\<close>, \<open>initialise_message\<close>
    and \<open>done_message\<close> write to it only.
\<close>

definition MAX_OUTPUT :: int where
  "MAX_OUTPUT = 5"

text \<open>
  MicroPython's \<open>time.ticks_diff\<close> (library code): the signed difference of two tick
  values on the ring of \<open>2 ^ 30\<close> ticks, in \<open>[- 2 ^ 29, 2 ^ 29)\<close>.
\<close>

definition ticks_diff :: "int \<Rightarrow> int \<Rightarrow> int" where
  "ticks_diff ticks1 ticks2 = ((ticks1 - ticks2 + 2 ^ 29) mod 2 ^ 30) - 2 ^ 29"

text \<open>\<open>random.choice\<close> on \<open>range(0, n)\<close>: raises on an empty range.\<close>

definition choice_range :: "nat \<Rightarrow> nat \<Rightarrow> py_error + nat" where
  "choice_range rnd n = (if n = 0 then Inl IndexError else Inr (rnd mod n))"

text \<open>
  The controller object. The attractor objects live in the list \<open>attractors\<close>, which is
  never restructured, so an object is identified by its position: the field \<open>a\<close>
  (\<open>self.a\<close>, a reference to one of the objects of the list) holds that position, and
  stepping \<open>self.a\<close> changes the object in the list. \<open>gate4\<close> .. \<open>gate6\<close> do not exist
  until the first \<open>update\<close>: \<open>None\<close>.
\<close>

record strange_attractor =
  attractors :: "attractor list"
  selected_attractor :: nat
  a :: nat
  checkpoint :: int
  period :: real
  range_out :: int
  threshold :: int
  freeze :: bool
  show_detail :: bool
  gate4 :: "bool option"
  gate5 :: "bool option"
  gate6 :: "bool option"

record outputs =
  cv1 :: real
  cv2 :: real
  cv3 :: real
  cv4 :: bool
  cv5 :: bool
  cv6 :: bool

text \<open>\<open>StrangeAttractor.__init__\<close>; \<open>estimate_ranges()\<close> runs its default 100000 steps.\<close>

definition StrangeAttractor_init :: "attractor list \<Rightarrow> nat \<Rightarrow> py_error + strange_attractor" where
  "StrangeAttractor_init atts0 rnd =
     (let atts = map (\<lambda>att. estimate_ranges att 100000) atts0
      in case choice_range rnd (length atts) of
           Inl e \<Rightarrow> Inl e
         | Inr i \<Rightarrow>
             Inr \<lparr> attractors = atts,
                   selected_attractor = i,
                   a = i,
                   checkpoint = 0,
                   period = 100,
                   range_out = MAX_OUTPUT,
                   threshold = 20,
                   freeze = False,
                   show_detail = True,
                   gate4 = None, gate5 = None, gate6 = None \<rparr>)"

text \<open>
  The handlers. \<open>now\<close> is what \<open>ticks_ms()\<close> returns in the handler, \<open>last_pressed\<close>
  what \<open>b1.last_pressed()\<close> (\<open>b2.last_pressed()\<close>) returns. \<open>%\<close> by \<open>len(self.attractors)\<close>
  raises on an empty list.
\<close>

definition b1Pressed :: "strange_attractor \<Rightarrow> int \<Rightarrow> int \<Rightarrow> py_error + strange_attractor" where
  "b1Pressed sa now last_pressed =
     (if ticks_diff now last_pressed > 300 then
        (if length (attractors sa) = 0 then Inl ZeroDivisionError
         else
           (let sa1 = sa \<lparr> selected_attractor :=
                              (selected_attractor sa + 1) mod length (attractors sa) \<rparr>;
                sa2 = sa1 \<lparr> a := selected_attractor sa1 \<rparr>
            in Inr sa2))
      else
        (let sa1 = sa \<lparr> range_out := range_out sa - 1 \<rparr>;
             sa2 = (if range_out sa1 < 1 then sa1 \<lparr> range_out := 1 \<rparr> else sa1)
         in Inr sa2))"

definition b2Pressed :: "strange_attractor \<Rightarrow> int \<Rightarrow> int \<Rightarrow> strange_attractor" where
  "b2Pressed sa now last_pressed =
     (if ticks_diff now last_pressed > 300 then
        sa \<lparr> show_detail := \<not> show_detail sa \<rparr>
      else
        (let sa1 = sa \<lparr> range_out := range_out sa + 1 \<rparr>;
             sa2 = (if range_out sa1 > MAX_OUTPUT then sa1 \<lparr> range_out := MAX_OUTPUT \<rparr> else sa1)
         in sa2))"

definition dinTrigger :: "strange_attractor \<Rightarrow> strange_attractor" where
  "dinTrigger sa = sa \<lparr> freeze := True \<rparr>"

definition dinTriggerEnd :: "strange_attractor \<Rightarrow> strange_attractor" where
  "dinTriggerEnd sa = sa \<lparr> freeze := False \<rparr>"

definition update_values :: "strange_attractor \<Rightarrow> strange_attractor" where
  "update_values sa =
     (if \<not> freeze sa
      then sa \<lparr> attractors := (attractors sa)[a sa := step (attractors sa ! a sa)] \<rparr>
      else sa)"

text \<open>\<open>update_speed\<close>; \<open>val\<close> is the reading of knob 1 (integer readings included).\<close>

definition update_speed :: "strange_attractor \<Rightarrow> real \<Rightarrow> strange_attractor" where
  "update_speed sa val =
     (let low = 1000; mid = 100; high = 10
      in if val = 0 then sa \<lparr> period := low \<rparr>
         else if val < 50 then sa \<lparr> period := low - ((low - mid) * (val / 50)) \<rparr>
         else sa \<lparr> period := mid - ((mid - high) * (val - 50) / 50) \<rparr>)"

definition update_threshold :: "strange_attractor \<Rightarrow> int \<Rightarrow> strange_attractor" where
  "update_threshold sa val = sa \<lparr> threshold := val \<rparr>"

text \<open>
  \<open>update\<close>; \<open>now\<close> is what \<open>ticks_ms()\<close> returns at the end. The scaled values are
  computed in the source's order, so the first zero range met raises; what was already
  written to an output when a later axis raises is not recorded, the program ends there.
\<close>

definition update :: "strange_attractor \<Rightarrow> int \<Rightarrow> py_error + strange_attractor \<times> outputs" where
  "update sa now =
     (let sa1 = update_values sa;
          att = attractors sa1 ! a sa1
      in case x_scaled att of Inl e \<Rightarrow> Inl e | Inr sx \<Rightarrow>
         case y_scaled att of Inl e \<Rightarrow> Inl e | Inr sy \<Rightarrow>
         case z_scaled att of Inl e \<Rightarrow> Inl e | Inr sz \<Rightarrow>
           (let v1 = (real_of_int (range_out sa1) * sx) / 100;
                v2 = (real_of_int (range_out sa1) * sy) / 100;
                v3 = (real_of_int (range_out sa1) * sz) / 100;
                g4 = (\<lfloor>sx\<rfloor> mod 2 = 0);
                g5 = (\<bar>sy + sz - 2 * sx\<bar> > real_of_int (threshold sa1));
                g6 = (\<bar>sz + sx - 2 * sy\<bar> > real_of_int (threshold sa1));
                sa2 = sa1 \<lparr> gate4 := Some g4, gate5 := Some g5, gate6 := Some g6 \<rparr>;
                sa3 = sa2 \<lparr> checkpoint := now \<rparr>
            in Inr (sa3, \<lparr> cv1 = v1, cv2 = v2, cv3 = v3, cv4 = g4, cv5 = g5, cv6 = g6 \<rparr>)))"

text \<open>
  One iteration of the \<open>while True\<close> of \<open>main\<close>, with what it reads from outside: the
  two knobs, the clock at the test and the clock inside \<open>update\<close>. It returns the
  outputs written, if any.
\<close>

record readings =
  k1_position :: real
  k2_position :: int
  ticks_test :: int
  ticks_update :: int

definition main_iteration ::
  "strange_attractor \<Rightarrow> readings \<Rightarrow> py_error + strange_attractor \<times> outputs option" where
  "main_iteration sa rd =
     (let sa1 = update_speed sa (k1_position rd);
          sa2 = update_threshold sa1 (k2_position rd)
      in if real_of_int (ticks_diff (ticks_test rd) (checkpoint sa2)) > period sa2
         then (case update sa2 (ticks_update rd) of
                 Inl e \<Rightarrow> Inl e
               | Inr (sa3, out) \<Rightarrow> Inr (sa3, Some out))
         else Inr (sa2, None))"

text \<open>
  \<open>main\<close> never returns; the model runs a finite prefix of it, one reading per
  iteration, and collects what each iteration wrote. An exception ends the program.
\<close>

fun main_loop ::
  "strange_attractor \<Rightarrow> readings list \<Rightarrow> py_error + strange_attractor \<times> outputs option list" where
  "main_loop sa [] = Inr (sa, [])"
| "main_loop sa (rd # rds) =
     (case main_iteration sa rd of
        Inl e \<Rightarrow> Inl e
      | Inr (sa1, out) \<Rightarrow>
          (case main_loop sa1 rds of
             Inl e \<Rightarrow> Inl e
           | Inr (sa2, outs) \<Rightarrow> Inr (sa2, out # outs)))"

text \<open>
  The events that reach the controller between two iterations: a release of button 1
  or 2 (with the clock and the time of the press), an edge of the digital input.
\<close>

datatype event =
    B1_release int int
  | B2_release int int
  | Din_rise
  | Din_fall

fun handle :: "strange_attractor \<Rightarrow> event \<Rightarrow> py_error + strange_attractor" where
  "handle sa (B1_release now last_pressed) = b1Pressed sa now last_pressed"
| "handle sa (B2_release now last_pressed) = Inr (b2Pressed sa now last_pressed)"
| "handle sa Din_rise = Inr (dinTrigger sa)"
| "handle sa Din_fall = Inr (dinTriggerEnd sa)"

fun handle_all :: "strange_attractor \<Rightarrow> event list \<Rightarrow> py_error + strange_attractor" where
  "handle_all sa [] = Inr sa"
| "handle_all sa (ev # evs) =
     (case handle sa ev of Inl e \<Rightarrow> Inl e | Inr sa1 \<Rightarrow> handle_all sa1 evs)"

text \<open>
  The program as the last two lines of the script start it,
  \<open>sa = StrangeAttractor(get_attractors())\<close>, when \<open>choice\<close> picks index 0.
\<close>

definition booted :: strange_attractor where
  "booted = projr (StrangeAttractor_init get_attractors 0)"

text \<open>The reference \<open>self.a\<close> points into the list, at the selected index.\<close>

definition wf :: "strange_attractor \<Rightarrow> bool" where
  "wf sa = (a sa < length (attractors sa) \<and> a sa = selected_attractor sa)"

section \<open>Properties of the attractor models\<close>

lemma advance_fields:
  "advance dx dy dz att =
     att \<lparr> x := x att + dx * dt att, y := y att + dy * dt att, z := z att + dz * dt att \<rparr>"
  by (simp add: advance_def Let_def)

text \<open>
  Claim C10. A freshly constructed attractor of any class, before any calibration: each
  range is the nonzero default 100 and each minimum is the initial coordinate, so the
  three scaled values are defined (no division by zero) and are 0.
\<close>

theorem fresh_attractor_scaled:
  "(let att = Attractor_init (p0, p1, p2) d nm
    in (x_range att, y_range att, z_range att) = (100, 100, 100) \<and>
       (x_min att, y_min att, z_min att) = (p0, p1, p2) \<and>
       (x_scaled att, y_scaled att, z_scaled att) = (Inr 0, Inr 0, Inr 0)) \<and>
   (let att = Lorenz_init (p0, p1, p2) (q0, q1, q2) d
    in (x_range att, y_range att, z_range att) = (100, 100, 100) \<and>
       (x_min att, y_min att, z_min att) = (p0, p1, p2) \<and>
       (x_scaled att, y_scaled att, z_scaled att) = (Inr 0, Inr 0, Inr 0)) \<and>
   (let att = PanXuZhou_init (p0, p1, p2) (q0, q1, q2) d
    in (x_range att, y_range att, z_range att) = (100, 100, 100) \<and>
       (x_min att, y_min att, z_min att) = (p0, p1, p2) \<and>
       (x_scaled att, y_scaled att, z_scaled att) = (Inr 0, Inr 0, Inr 0)) \<and>
   (let att = Rossler_init (p0, p1, p2) (q0, q1, q2) d
    in (x_range att, y_range att, z_range att) = (100, 100, 100) \<and>
       (x_min att, y_min att, z_min att) = (p0, p1, p2) \<and>
       (x_scaled att, y_scaled att, z_scaled att) = (Inr 0, Inr 0, Inr 0)) \<and>
   (let att = Rikitake_init (p0, p1, p2) (q0, q1) d
    in (x_range att, y_range att, z_range att) = (100, 100, 100) \<and>
       (x_min att, y_min att, z_min att) = (p0, p1, p2) \<and>
       (x_scaled att, y_scaled att, z_scaled att) = (Inr 0, Inr 0, Inr 0))"
  by (simp add: x_scaled_def y_scaled_def z_scaled_def py_truediv_def Attractor_init_def
      Lorenz_init_def PanXuZhou_init_def Rossler_init_def Rikitake_init_def)

text \<open>
  Claim C2. One \<open>step\<close> of each of the four systems is a forward Euler step: the new
  coordinates are the old ones plus \<open>dt\<close> times the right-hand sides, all three
  evaluated at the coordinates before the step, and nothing else of the object changes.
  From the default Lorenz point \<open>(0, 1, 1.05)\<close> with \<open>dt = 0.01\<close> one step gives
  \<open>x = 0.1\<close>, \<open>y = 0.99\<close>, \<open>z = 1.0219965\<close>.
\<close>

theorem step_forward_euler:
  "step (att\<lparr>system := Lorenz ps pr pb\<rparr>) =
     att\<lparr>system := Lorenz ps pr pb,
         x := x att + dt att * (ps * (y att - x att)),
         y := y att + dt att * (pr * x att - y att - x att * z att),
         z := z att + dt att * (x att * y att - pb * z att)\<rparr> \<and>
   step (att\<lparr>system := PanXuZhou pa pb pc\<rparr>) =
     att\<lparr>system := PanXuZhou pa pb pc,
         x := x att + dt att * (pa * (y att - x att)),
         y := y att + dt att * (pc * x att - x att * z att),
         z := z att + dt att * (x att * y att - pb * z att)\<rparr> \<and>
   step (att\<lparr>system := Rossler pa pb pc\<rparr>) =
     att\<lparr>system := Rossler pa pb pc,
         x := x att + dt att * (- (y att + z att)),
         y := y att + dt att * (x att + pa * y att),
         z := z att + dt att * (pb + z att * (x att - pc))\<rparr> \<and>
   step (att\<lparr>system := Rikitake pa pmu\<rparr>) =
     att\<lparr>system := Rikitake pa pmu,
         x := x att + dt att * (- pmu * x att + z att * y att),
         y := y att + dt att * (- pmu * y att + x att * (z att - pa)),
         z := z att + dt att * (1 - x att * y att)\<rparr> \<and>
   x (step Lorenz_default) = 0.1 \<and>
   y (step Lorenz_default) = 0.99 \<and>
   z (step Lorenz_default) = 1.0219965 \<and>
   \<bar>z (step Lorenz_default) - 1.022\<bar> < 0.00001"
  by (simp add: step_def advance_fields Let_def mult.commute
      Lorenz_default_def Lorenz_init_def Attractor_init_def)

section \<open>Properties of the controller\<close>

text \<open>
  Claim C7. The period set from a knob reading: 1000 at 0, 100 at 50, 10 at 100, the
  straight line between the first two on \<open>[0, 50]\<close> and between the last two on
  \<open>[50, 100]\<close>, strictly decreasing on \<open>[0, 100]\<close>; \<open>update_speed\<close> changes the period
  and nothing else.
\<close>

theorem speed_mapping:
  "period (update_speed sa 0) = 1000 \<and>
   period (update_speed sa 50) = 100 \<and>
   period (update_speed sa 100) = 10 \<and>
   (0 \<le> v1 \<and> v1 \<le> 50 \<longrightarrow>
      update_speed sa v1 = sa\<lparr>period := 1000 + (v1 - 0) * ((100 - 1000) / (50 - 0))\<rparr>) \<and>
   (50 \<le> v2 \<and> v2 \<le> 100 \<longrightarrow>
      update_speed sa v2 = sa\<lparr>period := 100 + (v2 - 50) * ((10 - 100) / (100 - 50))\<rparr>) \<and>
   (0 \<le> u \<and> u < v \<and> v \<le> 100 \<longrightarrow> period (update_speed sa v) < period (update_speed sa u))"
proof -
  have p: "period (update_speed sa w) = (if w < 50 then 1000 - 18 * w else 190 - 9 * w / 5)" for w
    by (simp add: update_speed_def Let_def field_simps)
  have f: "update_speed sa w = sa\<lparr>period := period (update_speed sa w)\<rparr>" for w
    by (simp add: update_speed_def Let_def)
  have m: "period (update_speed sa v) < period (update_speed sa u)" if "0 \<le> u" "u < v" "v \<le> 100"
    using that unfolding p by (simp split: if_splits)
  have l1: "update_speed sa v1 = sa\<lparr>period := 1000 + (v1 - 0) * ((100 - 1000) / (50 - 0))\<rparr>"
    if "0 \<le> v1" "v1 \<le> 50"
  proof -
    have "period (update_speed sa v1) = 1000 + (v1 - 0) * ((100 - 1000) / (50 - 0))"
      using that unfolding p by (simp add: field_simps)
    then show ?thesis using f [of v1] by simp
  qed
  have l2: "update_speed sa v2 = sa\<lparr>period := 100 + (v2 - 50) * ((10 - 100) / (100 - 50))\<rparr>"
    if "50 \<le> v2" "v2 \<le> 100"
  proof -
    have "period (update_speed sa v2) = 100 + (v2 - 50) * ((10 - 100) / (100 - 50))"
      using that unfolding p by (simp add: field_simps)
    then show ?thesis using f [of v2] by simp
  qed
  show ?thesis
    using m l1 l2 by (simp add: p)
qed

theorem speed_mapping_witness:
  "update_speed booted 25 = booted\<lparr>period := 550\<rparr> \<and>
   update_speed booted 75 = booted\<lparr>period := 55\<rparr> \<and>
   period (update_speed booted 75) < period (update_speed booted 25)"
  using speed_mapping [of booted 25 75 25 75] by simp

lemma ticks_diff_plain:
  "- (2 ^ 29) \<le> t1 - t2 \<Longrightarrow> t1 - t2 < 2 ^ 29 \<Longrightarrow> ticks_diff t1 t2 = t1 - t2"
  by (simp add: ticks_diff_def)

lemma init_booted: "StrangeAttractor_init get_attractors 0 = Inr booted"
  by (simp add: booted_def StrangeAttractor_init_def choice_range_def get_attractors_def)

lemma booted_fields:
  "attractors booted = map (\<lambda>att. estimate_ranges att 100000) get_attractors"
  "selected_attractor booted = 0" "a booted = 0" "checkpoint booted = 0"
  "period booted = 100" "range_out booted = 5" "threshold booted = 20"
  "freeze booted = False" "show_detail booted = True"
  by (simp_all add: booted_def StrangeAttractor_init_def choice_range_def get_attractors_def
      MAX_OUTPUT_def)

lemma init_fields:
  assumes "StrangeAttractor_init atts rnd = Inr sa"
  shows "attractors sa \<noteq> []" "range_out sa = MAX_OUTPUT" "wf sa"
    "attractors sa = map (\<lambda>att. estimate_ranges att 100000) atts"
    "checkpoint sa = 0" "period sa = 100" "threshold sa = 20" "\<not> freeze sa"
  using assms
  by (auto simp add: StrangeAttractor_init_def choice_range_def wf_def Let_def
      split: if_splits)

lemma b1Pressed_long:
  "ticks_diff now lp > 300 \<Longrightarrow> attractors sa \<noteq> [] \<Longrightarrow>
   b1Pressed sa now lp =
     Inr (sa\<lparr>selected_attractor := (selected_attractor sa + 1) mod length (attractors sa),
             a := (selected_attractor sa + 1) mod length (attractors sa)\<rparr>)"
  by (simp add: b1Pressed_def Let_def)

lemma b1Pressed_short:
  "\<not> ticks_diff now lp > 300 \<Longrightarrow>
   b1Pressed sa now lp = Inr (sa\<lparr>range_out := max 1 (range_out sa - 1)\<rparr>)"
  by (simp add: b1Pressed_def Let_def max_def)

lemma b2Pressed_short:
  "\<not> ticks_diff now lp > 300 \<Longrightarrow>
   b2Pressed sa now lp = sa\<lparr>range_out := min MAX_OUTPUT (range_out sa + 1)\<rparr>"
  by (simp add: b2Pressed_def Let_def min_def)

lemma b2Pressed_long:
  "ticks_diff now lp > 300 \<Longrightarrow> b2Pressed sa now lp = sa\<lparr>show_detail := \<not> show_detail sa\<rparr>"
  by (simp add: b2Pressed_def)

lemma handle_inv:
  assumes "attractors sa \<noteq> []" "1 \<le> range_out sa" "range_out sa \<le> MAX_OUTPUT"
  shows "\<exists>sa'. handle sa ev = Inr sa' \<and> attractors sa' = attractors sa \<and>
           1 \<le> range_out sa' \<and> range_out sa' \<le> MAX_OUTPUT"
proof (cases ev)
  case (B1_release now lp)
  then show ?thesis using assms
    by (cases "ticks_diff now lp > 300") (simp_all add: b1Pressed_long b1Pressed_short MAX_OUTPUT_def)
next
  case (B2_release now lp)
  then show ?thesis using assms
    by (cases "ticks_diff now lp > 300") (simp_all add: b2Pressed_long b2Pressed_short MAX_OUTPUT_def)
qed (use assms in \<open>simp_all add: dinTrigger_def dinTriggerEnd_def\<close>)

lemma handle_all_inv:
  "attractors sa \<noteq> [] \<Longrightarrow> 1 \<le> range_out sa \<Longrightarrow> range_out sa \<le> MAX_OUTPUT \<Longrightarrow>
   \<exists>sa'. handle_all sa evs = Inr sa' \<and> attractors sa' = attractors sa \<and>
     1 \<le> range_out sa' \<and> range_out sa' \<le> MAX_OUTPUT"
proof (induction evs arbitrary: sa)
  case Nil
  then show ?case by simp
next
  case (Cons ev evs)
  from handle_inv [OF Cons.prems, of ev] obtain sa1 where
    h: "handle sa ev = Inr sa1" "attractors sa1 = attractors sa"
       "1 \<le> range_out sa1" "range_out sa1 \<le> MAX_OUTPUT"
    by blast
  with Cons.prems have "attractors sa1 \<noteq> []" by simp
  from Cons.IH [OF this h(3,4)] h(1,2) show ?case by simp
qed

text \<open>
  Claim C8. From the state the constructor leaves, every sequence of handler events
  (releases of button 1 and 2 of any duration, edges of the digital input) runs without
  an exception and leaves the output range in \<open>[1, MAX_OUTPUT]\<close>.
\<close>

theorem range_clamp:
  assumes "StrangeAttractor_init atts rnd = Inr sa0"
  shows "\<exists>sa. handle_all sa0 evs = Inr sa \<and> 1 \<le> range_out sa \<and> range_out sa \<le> MAX_OUTPUT"
proof -
  have "attractors sa0 \<noteq> []" "1 \<le> range_out sa0" "range_out sa0 \<le> MAX_OUTPUT"
    using init_fields(1,2) [OF assms] by (simp_all add: MAX_OUTPUT_def)
  from handle_all_inv [OF this, of evs] show ?thesis by blast
qed

theorem range_clamp_witness:
  "StrangeAttractor_init get_attractors 0 = Inr booted \<and>
   (\<exists>sa. handle_all booted
      [B1_release 100 0, B1_release 300 200, B1_release 500 400, B1_release 700 600,
       B1_release 900 800, B1_release 1100 1000, B2_release 1300 1200, B2_release 2000 1400]
        = Inr sa \<and> 1 \<le> range_out sa \<and> range_out sa \<le> MAX_OUTPUT)"
  using range_clamp [OF init_booted] init_booted by blast

text \<open>
  Claim C4, as the code has it. The press duration is \<open>ticks_diff now last_pressed\<close>
  (the plain difference while it is below \<open>2 ^ 29\<close>). A release of button 1 is a long
  press exactly when the duration exceeds 300 ms: it then moves the selected index, and
  the reference \<open>a\<close> with it, one forward with wrap-around and changes nothing else (no
  attractor's coordinates). Otherwise, 300 ms included, it is a short press: the range
  goes down by 1, but not below 1.
\<close>

theorem b1_release_classification:
  "(0 \<le> now - lp \<and> now - lp < 2 ^ 29 \<longrightarrow> ticks_diff now lp = now - lp) \<and>
   (300 < ticks_diff now lp \<and> attractors sa \<noteq> [] \<longrightarrow>
      b1Pressed sa now lp =
        Inr (sa\<lparr>selected_attractor := (selected_attractor sa + 1) mod length (attractors sa),
                a := (selected_attractor sa + 1) mod length (attractors sa)\<rparr>)) \<and>
   (ticks_diff now lp \<le> 300 \<longrightarrow>
      b1Pressed sa now lp = Inr (sa\<lparr>range_out := max 1 (range_out sa - 1)\<rparr>))"
  using ticks_diff_plain [of now lp] b1Pressed_long [of now lp sa] b1Pressed_short [of now lp sa]
  by simp

theorem b1_release_classification_witness:
  "b1Pressed booted 301 0 = Inr (booted\<lparr>selected_attractor := 1, a := 1\<rparr>) \<and>
   b1Pressed booted 299 0 = Inr (booted\<lparr>range_out := 4\<rparr>) \<and>
   ticks_diff 301 0 = 301 \<and> ticks_diff 299 0 = 299"
  using b1_release_classification [of 301 0 booted] b1_release_classification [of 299 0 booted]
  by (simp add: booted_fields get_attractors_def)

text \<open>
  Claim C4 as stated fails at a press of exactly 300 ms, which is not under 300 ms: the
  handler takes it for a short press, the range goes from 5 to 4 and the selected model
  stays.
\<close>

theorem b1_release_300_counterexample:
  "ticks_diff 300 0 = 300 \<and>
   b1Pressed booted 300 0 = Inr (booted\<lparr>range_out := 4\<rparr>) \<and>
   b1Pressed booted 300 0 \<noteq> Inr (booted\<lparr>selected_attractor := 1, a := 1\<rparr>)"
proof -
  have d: "ticks_diff 300 0 = 300" by (simp add: ticks_diff_def)
  have b: "b1Pressed booted 300 0 = Inr (booted\<lparr>range_out := 4\<rparr>)"
    using b1Pressed_short [of 300 0 booted] d by (simp add: booted_fields)
  have "selected_attractor (booted\<lparr>range_out := 4\<rparr>) \<noteq>
        selected_attractor (booted\<lparr>selected_attractor := 1, a := 1\<rparr>)"
    by (simp add: booted_fields)
  then have "booted\<lparr>range_out := 4\<rparr> \<noteq> booted\<lparr>selected_attractor := 1, a := 1\<rparr>"
    by metis
  with d b show ?thesis by simp
qed

lemma step_frame:
  "initial_state (step att) = initial_state att" "dt (step att) = dt att"
  "name (step att) = name att" "system (step att) = system att"
  "x_min (step att) = x_min att" "y_min (step att) = y_min att" "z_min (step att) = z_min att"
  "x_max (step att) = x_max att" "y_max (step att) = y_max att" "z_max (step att) = z_max att"
  "x_range (step att) = x_range att" "y_range (step att) = y_range att"
  "z_range (step att) = z_range att"
  by (simp_all add: step_def advance_fields Let_def split: system.splits)

lemma update_values_cases:
  "update_values sa =
     (if freeze sa then sa
      else sa\<lparr>attractors := (attractors sa)[a sa := step (attractors sa ! a sa)]\<rparr>)"
  by (simp add: update_values_def)

lemma update_values_frame:
  "a (update_values sa) = a sa" "selected_attractor (update_values sa) = selected_attractor sa"
  "checkpoint (update_values sa) = checkpoint sa" "period (update_values sa) = period sa"
  "range_out (update_values sa) = range_out sa" "threshold (update_values sa) = threshold sa"
  "freeze (update_values sa) = freeze sa" "show_detail (update_values sa) = show_detail sa"
  "length (attractors (update_values sa)) = length (attractors sa)"
  by (simp_all add: update_values_def)

lemma update_Inr:
  assumes "update sa t = Inr (sa', out)"
  shows "sa' = (update_values sa)\<lparr>gate4 := Some (cv4 out), gate5 := Some (cv5 out),
                 gate6 := Some (cv6 out), checkpoint := t\<rparr>"
  using assms by (auto simp add: update_def Let_def split: sum.splits)

lemma update_Inr_fields:
  assumes "update sa t = Inr (sa', out)"
  shows "attractors sa' = attractors (update_values sa)" "a sa' = a sa"
    "selected_attractor sa' = selected_attractor sa"
    "checkpoint sa' = t" "period sa' = period sa" "range_out sa' = range_out sa"
    "threshold sa' = threshold sa" "freeze sa' = freeze sa" "show_detail sa' = show_detail sa"
  by (simp_all add: update_Inr [OF assms] update_values_frame)

lemma update_speed_frame:
  "update_speed sa v = sa\<lparr>period := period (update_speed sa v)\<rparr>"
  by (simp add: update_speed_def Let_def)

lemma update_speed_checkpoint: "checkpoint (update_speed sa v) = checkpoint sa"
  by (subst update_speed_frame) simp

text \<open>
  Claim C3, as the code has it. In one iteration of the loop of \<open>main\<close> the speed and the
  threshold are sampled first, always. Then \<open>update\<close> (step unless frozen, outputs,
  gates, checkpoint) runs exactly when the time elapsed since the checkpoint is strictly
  greater than the period just sampled; when it is less than or equal to the period, the
  iteration writes no output and changes nothing but period and threshold.
\<close>

theorem main_iteration_tick:
  assumes "sampled = update_threshold (update_speed sa (k1_position rd)) (k2_position rd)"
    and "elapsed = ticks_diff (ticks_test rd) (checkpoint sa)"
  shows "(period sampled < real_of_int elapsed \<longrightarrow>
            main_iteration sa rd =
              (case update sampled (ticks_update rd) of
                 Inl e \<Rightarrow> Inl e
               | Inr (sa', out) \<Rightarrow> Inr (sa', Some out))) \<and>
         (real_of_int elapsed \<le> period sampled \<longrightarrow>
            main_iteration sa rd = Inr (sampled, None)) \<and>
         sampled = sa\<lparr>period := period (update_speed sa (k1_position rd)),
                       threshold := k2_position rd\<rparr> \<and>
         (\<forall>sa' out. update sampled (ticks_update rd) = Inr (sa', out) \<longrightarrow>
            attractors sa' =
              (if freeze sa then attractors sa
               else (attractors sa)[a sa := step (attractors sa ! a sa)]) \<and>
            checkpoint sa' = ticks_update rd \<and>
            period sa' = period sampled \<and> threshold sa' = k2_position rd)"
proof -
  have s: "sampled = sa\<lparr>period := period (update_speed sa (k1_position rd)),
                       threshold := k2_position rd\<rparr>"
    unfolding assms(1) update_threshold_def by (subst update_speed_frame) simp
  have c: "checkpoint sampled = checkpoint sa" "attractors sampled = attractors sa"
    "a sampled = a sa" "freeze sampled = freeze sa" "threshold sampled = k2_position rd"
    by (simp_all add: s)
  have m: "main_iteration sa rd =
      (if period sampled < real_of_int elapsed
       then (case update sampled (ticks_update rd) of
                 Inl e \<Rightarrow> Inl e
               | Inr (sa', out) \<Rightarrow> Inr (sa', Some out))
       else Inr (sampled, None))"
    unfolding assms
    by (simp add: main_iteration_def Let_def update_threshold_def update_speed_checkpoint)
  have u: "attractors sa' =
              (if freeze sa then attractors sa
               else (attractors sa)[a sa := step (attractors sa ! a sa)]) \<and>
            checkpoint sa' = ticks_update rd \<and>
            period sa' = period sampled \<and> threshold sa' = k2_position rd"
    if "update sampled (ticks_update rd) = Inr (sa', out)" for sa' out
    using update_Inr_fields [OF that] by (simp add: update_values_cases c)
  have m1: "main_iteration sa rd =
      (case update sampled (ticks_update rd) of
         Inl e \<Rightarrow> Inl e
       | Inr (sa', out) \<Rightarrow> Inr (sa', Some out))"
    if "period sampled < real_of_int elapsed"
    using that by (simp only: m if_True)
  have m2: "main_iteration sa rd = Inr (sampled, None)"
    if "real_of_int elapsed \<le> period sampled"
    using that by (simp add: m)
  show ?thesis
    using s m1 m2 u by blast
qed

theorem main_iteration_tick_witness:
  "main_iteration booted
     \<lparr>k1_position = 50, k2_position = 7, ticks_test = 101, ticks_update = 102\<rparr> =
     (case update (booted\<lparr>period := 100, threshold := 7\<rparr>) 102 of
        Inl e \<Rightarrow> Inl e | Inr (sa', out) \<Rightarrow> Inr (sa', Some out)) \<and>
   main_iteration booted
     \<lparr>k1_position = 50, k2_position = 7, ticks_test = 99, ticks_update = 102\<rparr> =
     Inr (booted\<lparr>period := 100, threshold := 7\<rparr>, None)"
  using
    main_iteration_tick [of "booted\<lparr>period := 100, threshold := 7\<rparr>" booted
      "\<lparr>k1_position = 50, k2_position = 7, ticks_test = 101, ticks_update = 102\<rparr>" 101]
    main_iteration_tick [of "booted\<lparr>period := 100, threshold := 7\<rparr>" booted
      "\<lparr>k1_position = 50, k2_position = 7, ticks_test = 99, ticks_update = 102\<rparr>" 99]
  by (simp add: update_threshold_def update_speed_def Let_def ticks_diff_def booted_def
      StrangeAttractor_init_def choice_range_def get_attractors_def)

text \<open>
  Claim C3 as stated fails when the elapsed time equals the period: knob 1 at 50 gives a
  period of 100 ms, 100 ms have passed since the checkpoint, and the iteration neither
  steps nor writes an output.
\<close>

theorem tick_at_period_counterexample:
  "period (update_speed booted 50) = 100 \<and>
   ticks_diff 100 (checkpoint booted) = 100 \<and>
   main_iteration booted
     \<lparr>k1_position = 50, k2_position = 20, ticks_test = 100, ticks_update = 100\<rparr> =
     Inr (booted\<lparr>period := 100, threshold := 20\<rparr>, None)"
  by (simp add: main_iteration_def update_threshold_def update_speed_def Let_def ticks_diff_def
      booted_def StrangeAttractor_init_def choice_range_def get_attractors_def)

section \<open>Calibration widens the bounds\<close>

lemma track_frame:
  "initial_state (track att) = initial_state att" "dt (track att) = dt att"
  "name (track att) = name att" "system (track att) = system att"
  "x (track att) = x att" "y (track att) = y att" "z (track att) = z att"
  "x_range (track att) = x_range att" "y_range (track att) = y_range att"
  "z_range (track att) = z_range att"
  by (simp_all add: track_def Let_def)

lemma track_bounds:
  "x_max (track att) = max (x att) (x_max att)" "y_max (track att) = max (y att) (y_max att)"
  "z_max (track att) = max (z att) (z_max att)" "x_min (track att) = min (x att) (x_min att)"
  "y_min (track att) = min (y att) (y_min att)" "z_min (track att) = min (z att) (z_min att)"
  by (simp_all add: track_def Let_def)

lemma estimate_loop_widens:
  "x_max att \<le> x_max (estimate_loop n att) \<and> x_min (estimate_loop n att) \<le> x_min att \<and>
   y_max att \<le> y_max (estimate_loop n att) \<and> y_min (estimate_loop n att) \<le> y_min att \<and>
   z_max att \<le> z_max (estimate_loop n att) \<and> z_min (estimate_loop n att) \<le> z_min att"
proof (induction n arbitrary: att)
  case 0
  show ?case by simp
next
  case (Suc n)
  from Suc [of "track (step att)"] show ?case
    by (simp add: track_bounds step_frame)
qed

lemma estimate_loop_first:
  "x (step att) \<le> x_max (estimate_loop (Suc n) att) \<and>
   x_min (estimate_loop (Suc n) att) \<le> x (step att) \<and>
   y (step att) \<le> y_max (estimate_loop (Suc n) att) \<and>
   y_min (estimate_loop (Suc n) att) \<le> y (step att) \<and>
   z (step att) \<le> z_max (estimate_loop (Suc n) att) \<and>
   z_min (estimate_loop (Suc n) att) \<le> z (step att)"
  using estimate_loop_widens [of "track (step att)" n]
  by (simp add: track_bounds)

lemma estimate_ranges_fields:
  "x_range (estimate_ranges att n) =
     x_max (estimate_loop (nat n) att) - x_min (estimate_loop (nat n) att)"
  "y_range (estimate_ranges att n) =
     y_max (estimate_loop (nat n) att) - y_min (estimate_loop (nat n) att)"
  "z_range (estimate_ranges att n) =
     z_max (estimate_loop (nat n) att) - z_min (estimate_loop (nat n) att)"
  "x_max (estimate_ranges att n) = x_max (estimate_loop (nat n) att)"
  "y_max (estimate_ranges att n) = y_max (estimate_loop (nat n) att)"
  "z_max (estimate_ranges att n) = z_max (estimate_loop (nat n) att)"
  "x_min (estimate_ranges att n) = x_min (estimate_loop (nat n) att)"
  "y_min (estimate_ranges att n) = y_min (estimate_loop (nat n) att)"
  "z_min (estimate_ranges att n) = z_min (estimate_loop (nat n) att)"
  by (simp_all add: estimate_ranges_def Let_def)

lemma Lorenz_default_step:
  "x (step Lorenz_default) = 1 / 10" "y (step Lorenz_default) = 99 / 100"
  "z (step Lorenz_default) = 10219965 / 10000000"
  "x_min Lorenz_default = 0" "y_max Lorenz_default = 1" "z_max Lorenz_default = 105 / 100"
  by (simp_all add: step_def advance_fields Let_def
      Lorenz_default_def Lorenz_init_def Attractor_init_def)

lemma Lorenz_default_calibrated:
  "0 < x_range (estimate_ranges Lorenz_default 100000) \<and>
   0 < y_range (estimate_ranges Lorenz_default 100000) \<and>
   0 < z_range (estimate_ranges Lorenz_default 100000)"
proof -
  have n: "nat 100000 = Suc 99999" by simp
  show ?thesis
    using estimate_loop_first [of Lorenz_default 99999]
      estimate_loop_widens [of Lorenz_default "Suc 99999"]
    unfolding estimate_ranges_fields n Lorenz_default_step
    by linarith
qed

section \<open>Ticks, frozen and not\<close>

lemma active_ranges_after_update_values:
  "x_range (attractors (update_values sa) ! a sa) = x_range (attractors sa ! a sa)"
  "y_range (attractors (update_values sa) ! a sa) = y_range (attractors sa ! a sa)"
  "z_range (attractors (update_values sa) ! a sa) = z_range (attractors sa ! a sa)"
proof -
  have "attractors (update_values sa) ! a sa = attractors sa ! a sa \<or>
        attractors (update_values sa) ! a sa = step (attractors sa ! a sa)"
    by (cases "a sa < length (attractors sa)")
      (simp_all add: update_values_cases list_update_beyond not_less)
  then show
    "x_range (attractors (update_values sa) ! a sa) = x_range (attractors sa ! a sa)"
    "y_range (attractors (update_values sa) ! a sa) = y_range (attractors sa ! a sa)"
    "z_range (attractors (update_values sa) ! a sa) = z_range (attractors sa ! a sa)"
    by (auto simp add: step_frame)
qed

lemma update_error_iff:
  "(\<exists>e. update sa t = Inl e) \<longleftrightarrow>
     x_range (attractors sa ! a sa) = 0 \<or> y_range (attractors sa ! a sa) = 0 \<or>
     z_range (attractors sa ! a sa) = 0"
  using active_ranges_after_update_values [of sa]
  by (simp add: update_def Let_def x_scaled_def y_scaled_def z_scaled_def py_truediv_def
      update_values_frame)

lemma update_defined:
  assumes "x_range (attractors sa ! a sa) \<noteq> 0" "y_range (attractors sa ! a sa) \<noteq> 0"
    "z_range (attractors sa ! a sa) \<noteq> 0"
  shows "\<exists>sa' out. update sa t = Inr (sa', out)"
proof (cases "update sa t")
  case (Inl e)
  with update_error_iff [of sa t] assms show ?thesis by blast
next
  case (Inr r)
  then show ?thesis by (cases r) simp
qed

lemma update_Inr_ranges:
  assumes "update sa t = Inr (sa', out)"
  shows "x_range (attractors sa ! a sa) \<noteq> 0 \<and> y_range (attractors sa ! a sa) \<noteq> 0 \<and>
         z_range (attractors sa ! a sa) \<noteq> 0"
  using update_error_iff [of sa t] assms by auto

lemma update_frozen_outputs:
  assumes "freeze s1" "freeze s2" "attractors s1 = attractors s2" "a s1 = a s2"
    "range_out s1 = range_out s2" "threshold s1 = threshold s2"
    "update s1 t1 = Inr (s1', o1)"
  shows "\<exists>s2'. update s2 t2 = Inr (s2', o1)"
proof -
  have "update_values s1 = s1" "update_values s2 = s2"
    using assms(1,2) by (simp_all add: update_values_cases)
  with assms(3-7) show ?thesis
    by (simp add: update_def Let_def split: sum.splits)
qed

lemma main_iteration_cases:
  "main_iteration sa rd =
     (if period (update_speed sa (k1_position rd))
           < real_of_int (ticks_diff (ticks_test rd) (checkpoint sa))
      then (case update (sa\<lparr>period := period (update_speed sa (k1_position rd)),
                             threshold := k2_position rd\<rparr>) (ticks_update rd) of
              Inl e \<Rightarrow> Inl e
            | Inr (sa', out) \<Rightarrow> Inr (sa', Some out))
      else Inr (sa\<lparr>period := period (update_speed sa (k1_position rd)),
                   threshold := k2_position rd\<rparr>, None))"
proof -
  have "update_threshold (update_speed sa (k1_position rd)) (k2_position rd) =
        sa\<lparr>period := period (update_speed sa (k1_position rd)), threshold := k2_position rd\<rparr>"
    unfolding update_threshold_def by (subst update_speed_frame) simp
  then show ?thesis
    by (simp add: main_iteration_def Let_def)
qed

lemma main_iteration_frozen:
  assumes "freeze s" "k2_position rd = threshold s" "main_iteration s rd = Inr (s', oo)"
  shows "attractors s' = attractors s \<and> a s' = a s \<and> range_out s' = range_out s \<and>
         threshold s' = threshold s \<and> freeze s' \<and>
         (\<forall>ou. oo = Some ou \<longrightarrow> (\<exists>s''. update s t = Inr (s'', ou)))"
proof (cases "period (update_speed s (k1_position rd))
           < real_of_int (ticks_diff (ticks_test rd) (checkpoint s))")
  case False
  with assms show ?thesis by (auto simp add: main_iteration_cases)
next
  case True
  let ?s = "s\<lparr>period := period (update_speed s (k1_position rd)), threshold := k2_position rd\<rparr>"
  from True assms(3) obtain ou where
    u: "update ?s (ticks_update rd) = Inr (s', ou)" and oo: "oo = Some ou"
    by (auto simp add: main_iteration_cases split: sum.splits)
  have "\<exists>s''. update s t = Inr (s'', ou)"
    by (rule update_frozen_outputs [OF _ _ _ _ _ _ u]) (use assms in simp_all)
  with update_Inr_fields [OF u] assms(1,2) oo show ?thesis
    by (simp add: update_values_cases)
qed

lemma main_loop_frozen:
  assumes "freeze s" "\<forall>rd \<in> set rds. k2_position rd = threshold s"
    "main_loop s rds = Inr (s', outs)"
  shows "attractors s' = attractors s \<and> a s' = a s \<and> range_out s' = range_out s \<and>
         threshold s' = threshold s \<and> freeze s' \<and>
         (\<forall>ou. Some ou \<in> set outs \<longrightarrow> (\<exists>s''. update s t = Inr (s'', ou)))"
  using assms
proof (induction rds arbitrary: s outs)
  case Nil
  then show ?case by simp
next
  case (Cons rd rds)
  from Cons.prems(3) obtain s1 oo outs1 where
    i: "main_iteration s rd = Inr (s1, oo)" and l: "main_loop s1 rds = Inr (s', outs1)"
    and o: "outs = oo # outs1"
    by (auto split: sum.splits)
  have k: "k2_position rd = threshold s" using Cons.prems(2) by simp
  note f = main_iteration_frozen [OF Cons.prems(1) k i, of t]
  have "\<forall>rd \<in> set rds. k2_position rd = threshold s1" using Cons.prems(2) f by simp
  from Cons.IH [OF _ this l] f
  have g: "attractors s' = attractors s1 \<and> a s' = a s1 \<and> range_out s' = range_out s1 \<and>
         threshold s' = threshold s1 \<and> freeze s' \<and>
         (\<forall>ou. Some ou \<in> set outs1 \<longrightarrow> (\<exists>s''. update s1 t = Inr (s'', ou)))"
    by simp
  have "\<exists>s''. update s t = Inr (s'', ou)" if "Some ou \<in> set outs1" for ou
  proof -
    from g that obtain s'' where "update s1 t = Inr (s'', ou)" by blast
    from update_frozen_outputs [OF _ _ _ _ _ _ this, of s t] f Cons.prems(1)
    show ?thesis by simp
  qed
  with f g o show ?case by auto
qed

text \<open>
  Claim C9. From a frozen state, run any number of iterations of the loop of \<open>main\<close>
  with the threshold input held at its value (the range changes only in the button
  handlers). No iteration steps an attractor: the list of attractors, the reference
  \<open>a\<close> and the freeze flag are as before. Every output record written (the three
  voltages and the three gates) is the one a tick at the frozen state writes, so any two
  of them are equal. After the falling edge (\<open>dinTriggerEnd\<close>) the next tick leaves the
  attractors exactly one \<open>step\<close> of the active one away from the frozen state, and it
  does not raise if a frozen tick did not.
\<close>

theorem freeze_idempotence:
  assumes "freeze sa"
    and "\<forall>rd \<in> set rds. k2_position rd = threshold sa"
    and "main_loop sa rds = Inr (sa1, outs)"
  shows "attractors sa1 = attractors sa \<and> a sa1 = a sa \<and> freeze sa1 \<and>
         (\<forall>ou. Some ou \<in> set outs \<longrightarrow> (\<exists>s. update sa t = Inr (s, ou))) \<and>
         (\<forall>o1 o2. Some o1 \<in> set outs \<and> Some o2 \<in> set outs \<longrightarrow> o1 = o2) \<and>
         (\<forall>sa2 out. update (dinTriggerEnd sa1) t' = Inr (sa2, out) \<longrightarrow>
            attractors sa2 = (attractors sa)[a sa := step (attractors sa ! a sa)]) \<and>
         ((\<exists>ou. Some ou \<in> set outs) \<longrightarrow> (\<exists>sa2 out. update (dinTriggerEnd sa1) t' = Inr (sa2, out)))"
proof -
  note f = main_loop_frozen [OF assms, of t]
  have eq: "o1 = o2" if "Some o1 \<in> set outs" "Some o2 \<in> set outs" for o1 o2
  proof -
    from f that obtain s1 s2 where "update sa t = Inr (s1, o1)" "update sa t = Inr (s2, o2)"
      by blast
    then show ?thesis by simp
  qed
  have st: "attractors sa2 = (attractors sa)[a sa := step (attractors sa ! a sa)]"
    if "update (dinTriggerEnd sa1) t' = Inr (sa2, out)" for sa2 out
    using update_Inr_fields(1) [OF that] f
    by (simp add: update_values_cases dinTriggerEnd_def)
  have ex: "\<exists>sa2 out. update (dinTriggerEnd sa1) t' = Inr (sa2, out)"
    if "Some ou \<in> set outs" for ou
  proof -
    from f that obtain s where "update sa t = Inr (s, ou)" by blast
    from update_Inr_ranges [OF this] f show ?thesis
      by (intro update_defined) (simp_all add: dinTriggerEnd_def)
  qed
  from f eq st ex show ?thesis by blast
qed

lemma booted_active_ranges:
  "x_range (attractors booted ! 0) \<noteq> 0 \<and> y_range (attractors booted ! 0) \<noteq> 0 \<and>
   z_range (attractors booted ! 0) \<noteq> 0"
  using Lorenz_default_calibrated by (simp add: booted_fields get_attractors_def)

theorem freeze_idempotence_witness:
  "freeze (dinTrigger booted) \<and>
   (\<exists>sa1 ou sa2 out.
      main_loop (dinTrigger booted)
        [\<lparr>k1_position = 50, k2_position = 20, ticks_test = 101, ticks_update = 102\<rparr>,
         \<lparr>k1_position = 50, k2_position = 20, ticks_test = 250, ticks_update = 251\<rparr>]
        = Inr (sa1, [Some ou, Some ou]) \<and>
      attractors sa1 = attractors booted \<and>
      update (dinTriggerEnd sa1) 400 = Inr (sa2, out) \<and>
      attractors sa2 = (attractors booted)[0 := step (attractors booted ! 0)])"
proof -
  let ?sa = "dinTrigger booted"
  let ?rdA = "\<lparr>k1_position = 50, k2_position = 20, ticks_test = 101, ticks_update = 102\<rparr>"
  let ?rdB = "\<lparr>k1_position = 50, k2_position = 20, ticks_test = 250, ticks_update = 251\<rparr>"
  have fr: "freeze ?sa" by (simp add: dinTrigger_def)
  have fs: "attractors ?sa = attractors booted" "a ?sa = 0" "checkpoint ?sa = 0"
    "threshold ?sa = 20"
    by (simp_all add: dinTrigger_def booted_fields)
  have k: "\<forall>rd \<in> set [?rdA, ?rdB]. k2_position rd = threshold ?sa"
    by (simp add: fs)
  have p: "period (update_speed s 50) = 100" for s
    by (simp add: update_speed_def Let_def)
  obtain s1 o1 where u1: "update (?sa\<lparr>period := 100, threshold := 20\<rparr>) 102 = Inr (s1, o1)"
    using update_defined [of "?sa\<lparr>period := 100, threshold := 20\<rparr>" 102] booted_active_ranges
    by (auto simp add: fs)
  have i1: "main_iteration ?sa ?rdA = Inr (s1, Some o1)"
    by (simp add: main_iteration_cases p fs u1 ticks_diff_def)
  have f1: "attractors s1 = attractors booted" "a s1 = 0" "checkpoint s1 = 102"
    using update_Inr_fields [OF u1] fr by (simp_all add: update_values_cases fs)
  obtain s2 o2 where u2: "update (s1\<lparr>period := 100, threshold := 20\<rparr>) 251 = Inr (s2, o2)"
    using update_defined [of "s1\<lparr>period := 100, threshold := 20\<rparr>" 251] booted_active_ranges
    by (auto simp add: f1)
  have i2: "main_iteration s1 ?rdB = Inr (s2, Some o2)"
    by (simp add: main_iteration_cases p f1 u2 ticks_diff_def)
  have ml: "main_loop ?sa [?rdA, ?rdB] = Inr (s2, [Some o1, Some o2])"
    by (simp add: i1 i2)
  note th = freeze_idempotence [OF fr k ml, of 0 400]
  have m: "Some o1 \<in> set [Some o1, Some o2]" "Some o2 \<in> set [Some o1, Some o2]"
    by simp_all
  from th m have e: "o1 = o2" by blast
  from th m obtain sa2 out where u3: "update (dinTriggerEnd s2) 400 = Inr (sa2, out)"
    by blast
  from th u3 have "attractors sa2 =
      (attractors ?sa)[a ?sa := step (attractors ?sa ! a ?sa)]"
    by blast
  then have a2: "attractors sa2 = (attractors booted)[0 := step (attractors booted ! 0)]"
    by (simp only: fs)
  from th have "attractors s2 = attractors ?sa" by blast
  then have a1: "attractors s2 = attractors booted" by (simp only: fs)
  from fr ml e u3 a1 a2 show ?thesis by blast
qed

section \<open>Calibration and normalization\<close>

lemma estimate_loop_Suc_end:
  "estimate_loop (Suc n) att = track (step (estimate_loop n att))"
proof (induction n arbitrary: att)
  case 0
  show ?case by simp
next
  case (Suc n)
  have "estimate_loop (Suc (Suc n)) att = estimate_loop (Suc n) (track (step att))"
    by (simp only: estimate_loop.simps)
  also have "\<dots> = track (step (estimate_loop n (track (step att))))"
    by (rule Suc.IH)
  also have "estimate_loop n (track (step att)) = estimate_loop (Suc n) att"
    by (simp only: estimate_loop.simps)
  finally show ?case .
qed

lemma step_coords_cong:
  assumes "x a1 = x a2" "y a1 = y a2" "z a1 = z a2" "dt a1 = dt a2" "system a1 = system a2"
  shows "x (step a1) = x (step a2) \<and> y (step a1) = y (step a2) \<and> z (step a1) = z (step a2)"
  using assms by (simp add: step_def advance_fields Let_def split: system.splits)

lemma funpow_step_frame:
  "initial_state ((step ^^ n) att) = initial_state att" "dt ((step ^^ n) att) = dt att"
  "name ((step ^^ n) att) = name att" "system ((step ^^ n) att) = system att"
  by (induction n) (simp_all add: step_frame)

lemma estimate_loop_frame:
  "initial_state (estimate_loop n att) = initial_state att \<and>
   dt (estimate_loop n att) = dt att \<and> name (estimate_loop n att) = name att \<and>
   system (estimate_loop n att) = system att \<and>
   x_range (estimate_loop n att) = x_range att \<and> y_range (estimate_loop n att) = y_range att \<and>
   z_range (estimate_loop n att) = z_range att \<and>
   attractor.more (estimate_loop n att) = attractor.more att"
proof (induction n arbitrary: att)
  case 0
  show ?case by simp
next
  case (Suc n)
  have "attractor.more (track (step att)) = attractor.more att"
    by (simp add: track_def step_def advance_fields Let_def split: system.splits)
  with Suc [of "track (step att)"] show ?case
    by (simp add: track_frame step_frame)
qed

lemma estimate_loop_motion:
  "x (estimate_loop n att) = x ((step ^^ n) att) \<and>
   y (estimate_loop n att) = y ((step ^^ n) att) \<and>
   z (estimate_loop n att) = z ((step ^^ n) att)"
proof (induction n)
  case 0
  show ?case by simp
next
  case (Suc n)
  have "dt (estimate_loop n att) = dt ((step ^^ n) att)"
    "system (estimate_loop n att) = system ((step ^^ n) att)"
    using estimate_loop_frame [of n att] by (simp_all add: funpow_step_frame)
  with Suc step_coords_cong [of "estimate_loop n att" "(step ^^ n) att"]
  show ?case
    by (simp add: estimate_loop_Suc_end track_frame del: estimate_loop.simps)
qed

lemma running_max:
  fixes f m :: "nat \<Rightarrow> real"
  assumes "\<And>i. m (Suc i) = max (f (Suc i)) (m i)"
  shows "m n = Max (insert (m 0) (f ` {1..n}))"
proof (induction n)
  case 0
  show ?case by simp
next
  case (Suc n)
  have "{1..Suc n} = insert (Suc n) {1..n}" by auto
  then have "Max (insert (m 0) (f ` {1..Suc n})) =
             Max (insert (f (Suc n)) (insert (m 0) (f ` {1..n})))"
    by (simp add: insert_commute)
  also have "\<dots> = max (f (Suc n)) (Max (insert (m 0) (f ` {1..n})))"
    by (rule Max_insert) simp_all
  finally show ?case using Suc assms [of n] by simp
qed

lemma running_min:
  fixes f m :: "nat \<Rightarrow> real"
  assumes "\<And>i. m (Suc i) = min (f (Suc i)) (m i)"
  shows "m n = Min (insert (m 0) (f ` {1..n}))"
proof (induction n)
  case 0
  show ?case by simp
next
  case (Suc n)
  have "{1..Suc n} = insert (Suc n) {1..n}" by auto
  then have "Min (insert (m 0) (f ` {1..Suc n})) =
             Min (insert (f (Suc n)) (insert (m 0) (f ` {1..n})))"
    by (simp add: insert_commute)
  also have "\<dots> = min (f (Suc n)) (Min (insert (m 0) (f ` {1..n})))"
    by (rule Min_insert) simp_all
  finally show ?case using Suc assms [of n] by simp
qed

lemma estimate_loop_bounds_step:
  "x_max (estimate_loop (Suc n) att) = max (x ((step ^^ Suc n) att)) (x_max (estimate_loop n att))"
  "y_max (estimate_loop (Suc n) att) = max (y ((step ^^ Suc n) att)) (y_max (estimate_loop n att))"
  "z_max (estimate_loop (Suc n) att) = max (z ((step ^^ Suc n) att)) (z_max (estimate_loop n att))"
  "x_min (estimate_loop (Suc n) att) = min (x ((step ^^ Suc n) att)) (x_min (estimate_loop n att))"
  "y_min (estimate_loop (Suc n) att) = min (y ((step ^^ Suc n) att)) (y_min (estimate_loop n att))"
  "z_min (estimate_loop (Suc n) att) = min (z ((step ^^ Suc n) att)) (z_min (estimate_loop n att))"
proof -
  have e: "estimate_loop (Suc n) att = track (step (estimate_loop n att))"
    by (rule estimate_loop_Suc_end)
  have c: "x (step (estimate_loop n att)) = x ((step ^^ Suc n) att)"
    "y (step (estimate_loop n att)) = y ((step ^^ Suc n) att)"
    "z (step (estimate_loop n att)) = z ((step ^^ Suc n) att)"
    using estimate_loop_motion [of "Suc n" att] unfolding e by (simp_all add: track_frame)
  show
  "x_max (estimate_loop (Suc n) att) = max (x ((step ^^ Suc n) att)) (x_max (estimate_loop n att))"
  "y_max (estimate_loop (Suc n) att) = max (y ((step ^^ Suc n) att)) (y_max (estimate_loop n att))"
  "z_max (estimate_loop (Suc n) att) = max (z ((step ^^ Suc n) att)) (z_max (estimate_loop n att))"
  "x_min (estimate_loop (Suc n) att) = min (x ((step ^^ Suc n) att)) (x_min (estimate_loop n att))"
  "y_min (estimate_loop (Suc n) att) = min (y ((step ^^ Suc n) att)) (y_min (estimate_loop n att))"
  "z_min (estimate_loop (Suc n) att) = min (z ((step ^^ Suc n) att)) (z_min (estimate_loop n att))"
    unfolding e by (simp_all only: track_bounds step_frame c)
qed

lemma estimate_loop_bounds:
  "x_max (estimate_loop n att) = Max (insert (x_max att) ((\<lambda>i. x ((step ^^ i) att)) ` {1..n}))"
  "y_max (estimate_loop n att) = Max (insert (y_max att) ((\<lambda>i. y ((step ^^ i) att)) ` {1..n}))"
  "z_max (estimate_loop n att) = Max (insert (z_max att) ((\<lambda>i. z ((step ^^ i) att)) ` {1..n}))"
  "x_min (estimate_loop n att) = Min (insert (x_min att) ((\<lambda>i. x ((step ^^ i) att)) ` {1..n}))"
  "y_min (estimate_loop n att) = Min (insert (y_min att) ((\<lambda>i. y ((step ^^ i) att)) ` {1..n}))"
  "z_min (estimate_loop n att) = Min (insert (z_min att) ((\<lambda>i. z ((step ^^ i) att)) ` {1..n}))"
  using running_max [of "\<lambda>i. x_max (estimate_loop i att)" "\<lambda>i. x ((step ^^ i) att)" n]
    running_max [of "\<lambda>i. y_max (estimate_loop i att)" "\<lambda>i. y ((step ^^ i) att)" n]
    running_max [of "\<lambda>i. z_max (estimate_loop i att)" "\<lambda>i. z ((step ^^ i) att)" n]
    running_min [of "\<lambda>i. x_min (estimate_loop i att)" "\<lambda>i. x ((step ^^ i) att)" n]
    running_min [of "\<lambda>i. y_min (estimate_loop i att)" "\<lambda>i. y ((step ^^ i) att)" n]
    running_min [of "\<lambda>i. z_min (estimate_loop i att)" "\<lambda>i. z ((step ^^ i) att)" n]
    estimate_loop_bounds_step [of _ att]
  by simp_all

lemma estimate_ranges_coords:
  "x (estimate_ranges att n) = fst (initial_state att)"
  "y (estimate_ranges att n) = fst (snd (initial_state att))"
  "z (estimate_ranges att n) = snd (snd (initial_state att))"
  "initial_state (estimate_ranges att n) = initial_state att"
  "dt (estimate_ranges att n) = dt att" "name (estimate_ranges att n) = name att"
  "system (estimate_ranges att n) = system att"
  "attractor.more (estimate_ranges att n) = attractor.more att"
  using estimate_loop_frame [of "nat n" att]
  by (simp_all add: estimate_ranges_def Let_def)

lemma image_upto_0:
  fixes f :: "nat \<Rightarrow> real"
  shows "insert (f 0) (f ` {1..m}) = f ` {..m}"
proof -
  have "{..m} = insert 0 {1..m}" by auto
  then show ?thesis by simp
qed

lemma fresh_estimate_loop_bounds:
  assumes "x_max att = x att" "y_max att = y att" "z_max att = z att"
    "x_min att = x att" "y_min att = y att" "z_min att = z att"
  shows
  "x_max (estimate_loop m att) = Max ((\<lambda>i. x ((step ^^ i) att)) ` {..m})"
  "y_max (estimate_loop m att) = Max ((\<lambda>i. y ((step ^^ i) att)) ` {..m})"
  "z_max (estimate_loop m att) = Max ((\<lambda>i. z ((step ^^ i) att)) ` {..m})"
  "x_min (estimate_loop m att) = Min ((\<lambda>i. x ((step ^^ i) att)) ` {..m})"
  "y_min (estimate_loop m att) = Min ((\<lambda>i. y ((step ^^ i) att)) ` {..m})"
  "z_min (estimate_loop m att) = Min ((\<lambda>i. z ((step ^^ i) att)) ` {..m})"
  using image_upto_0 [of "\<lambda>i. x ((step ^^ i) att)" m]
    image_upto_0 [of "\<lambda>i. y ((step ^^ i) att)" m]
    image_upto_0 [of "\<lambda>i. z ((step ^^ i) att)" m]
  unfolding estimate_loop_bounds assms by simp_all

text \<open>
  Claim C6. For every iteration count, \<open>estimate_ranges\<close> leaves the coordinates at the
  initial point and keeps the initial point, \<open>dt\<close>, the name and the system, whatever the
  state it starts from. Started on a model as its constructor leaves it (all five
  constructors give \<open>Attractor_init\<close> with a system set), it returns that very object
  with only the nine bounds changed: each minimum and maximum is the least and greatest
  value of the coordinate over the points of the run, the starting point included, and
  each range is their difference.
\<close>

theorem estimate_ranges_frame:
  "(let c = estimate_ranges att0 n
    in (x c, y c, z c) = initial_state att0 \<and> initial_state c = initial_state att0 \<and>
       dt c = dt att0 \<and> name c = name att0 \<and> system c = system att0 \<and>
       x_range c = x_max c - x_min c \<and> y_range c = y_max c - y_min c \<and>
       z_range c = z_max c - z_min c) \<and>
   (let att = (Attractor_init (p0, p1, p2) d nm)\<lparr>system := k\<rparr>;
        xs = (\<lambda>i. x ((step ^^ i) att)) ` {..nat n};
        ys = (\<lambda>i. y ((step ^^ i) att)) ` {..nat n};
        zs = (\<lambda>i. z ((step ^^ i) att)) ` {..nat n}
    in estimate_ranges att n =
         att\<lparr>x_min := Min xs, y_min := Min ys, z_min := Min zs,
             x_max := Max xs, y_max := Max ys, z_max := Max zs,
             x_range := Max xs - Min xs, y_range := Max ys - Min ys,
             z_range := Max zs - Min zs\<rparr>) \<and>
   Lorenz_init (p0, p1, p2) (q0, q1, q2) d =
     (Attractor_init (p0, p1, p2) d ''Lorenz'')\<lparr>system := Lorenz q0 q1 q2\<rparr> \<and>
   PanXuZhou_init (p0, p1, p2) (q0, q1, q2) d =
     (Attractor_init (p0, p1, p2) d ''Pan-Xu-Zhou'')\<lparr>system := PanXuZhou q0 q1 q2\<rparr> \<and>
   Rossler_init (p0, p1, p2) (q0, q1, q2) d =
     (Attractor_init (p0, p1, p2) d ''Rossler'')\<lparr>system := Rossler q0 q1 q2\<rparr> \<and>
   Rikitake_init (p0, p1, p2) (q0, q1) d =
     (Attractor_init (p0, p1, p2) d ''Rikitake'')\<lparr>system := Rikitake q0 q1\<rparr>"
proof -
  define att where "att = (Attractor_init (p0, p1, p2) d nm)\<lparr>system := k\<rparr>"
  have fr: "x_max att = x att" "y_max att = y att" "z_max att = z att"
    "x_min att = x att" "y_min att = y att" "z_min att = z att"
    and ini: "initial_state att = (x att, y att, z att)"
    by (simp_all add: att_def Attractor_init_def)
  note b = fresh_estimate_loop_bounds [OF fr, of "nat n"]
  have A: "(x c, y c, z c) = initial_state att0 \<and> initial_state c = initial_state att0 \<and>
       dt c = dt att0 \<and> name c = name att0 \<and> system c = system att0 \<and>
       x_range c = x_max c - x_min c \<and> y_range c = y_max c - y_min c \<and>
       z_range c = z_max c - z_min c" if "c = estimate_ranges att0 n" for c
    unfolding that by (simp add: estimate_ranges_coords estimate_ranges_fields)
  have B: "estimate_ranges att n =
         att\<lparr>x_min := Min ((\<lambda>i. x ((step ^^ i) att)) ` {..nat n}),
             y_min := Min ((\<lambda>i. y ((step ^^ i) att)) ` {..nat n}),
             z_min := Min ((\<lambda>i. z ((step ^^ i) att)) ` {..nat n}),
             x_max := Max ((\<lambda>i. x ((step ^^ i) att)) ` {..nat n}),
             y_max := Max ((\<lambda>i. y ((step ^^ i) att)) ` {..nat n}),
             z_max := Max ((\<lambda>i. z ((step ^^ i) att)) ` {..nat n}),
             x_range := Max ((\<lambda>i. x ((step ^^ i) att)) ` {..nat n})
                        - Min ((\<lambda>i. x ((step ^^ i) att)) ` {..nat n}),
             y_range := Max ((\<lambda>i. y ((step ^^ i) att)) ` {..nat n})
                        - Min ((\<lambda>i. y ((step ^^ i) att)) ` {..nat n}),
             z_range := Max ((\<lambda>i. z ((step ^^ i) att)) ` {..nat n})
                        - Min ((\<lambda>i. z ((step ^^ i) att)) ` {..nat n})\<rparr>"
    by (rule attractor.equality)
      (simp_all add: estimate_ranges_coords estimate_ranges_fields b ini)
  have C: "Lorenz_init (p0, p1, p2) (q0, q1, q2) d =
     (Attractor_init (p0, p1, p2) d ''Lorenz'')\<lparr>system := Lorenz q0 q1 q2\<rparr> \<and>
   PanXuZhou_init (p0, p1, p2) (q0, q1, q2) d =
     (Attractor_init (p0, p1, p2) d ''Pan-Xu-Zhou'')\<lparr>system := PanXuZhou q0 q1 q2\<rparr> \<and>
   Rossler_init (p0, p1, p2) (q0, q1, q2) d =
     (Attractor_init (p0, p1, p2) d ''Rossler'')\<lparr>system := Rossler q0 q1 q2\<rparr> \<and>
   Rikitake_init (p0, p1, p2) (q0, q1) d =
     (Attractor_init (p0, p1, p2) d ''Rikitake'')\<lparr>system := Rikitake q0 q1\<rparr>"
    by (simp add: Lorenz_init_def PanXuZhou_init_def Rossler_init_def Rikitake_init_def)
  show ?thesis
    unfolding Let_def using A [OF refl] B [unfolded att_def] C by blast
qed

lemma Lorenz_origin_fixed:
  "estimate_loop n (Lorenz_init (0, 0, 0) (10, 28, 2.667) 0.01) =
     Lorenz_init (0, 0, 0) (10, 28, 2.667) 0.01"
proof (induction n)
  case 0
  show ?case by simp
next
  case (Suc n)
  have "track (step (Lorenz_init (0, 0, 0) (10, 28, 2.667) 0.01)) =
        Lorenz_init (0, 0, 0) (10, 28, 2.667) 0.01"
    by (simp add: track_def step_def advance_fields Let_def Lorenz_init_def Attractor_init_def)
  with Suc show ?case by simp
qed

lemma Lorenz_origin_calibrated:
  "estimate_ranges (Lorenz_init (0, 0, 0) (10, 28, 2.667) 0.01) n =
     (Lorenz_init (0, 0, 0) (10, 28, 2.667) 0.01)\<lparr>x_range := 0, y_range := 0, z_range := 0\<rparr>"
  unfolding estimate_ranges_def Lorenz_origin_fixed
  by (simp add: Let_def Lorenz_init_def Attractor_init_def)

lemma update_degenerate:
  assumes "x_range (attractors sa ! a sa) = 0 \<or> y_range (attractors sa ! a sa) = 0 \<or>
           z_range (attractors sa ! a sa) = 0"
  shows "update sa t = Inl ZeroDivisionError"
  using assms active_ranges_after_update_values [of sa]
  by (auto simp add: update_def Let_def x_scaled_def y_scaled_def z_scaled_def py_truediv_def
      update_values_frame)

text \<open>
  Claim C1 as stated fails. The Lorenz system started at its fixed point \<open>(0, 0, 0)\<close>
  never moves, so the default calibration of 100000 steps observes max = min on every
  axis: the range of the x axis is then 0, not a default, \<open>x_scaled\<close> raises
  \<open>ZeroDivisionError\<close>, and so does the first \<open>update\<close> of a controller built on that
  model.
\<close>

theorem degenerate_calibration_counterexample:
  "x_range (estimate_ranges (Lorenz_init (0, 0, 0) (10, 28, 2.667) 0.01) 100000) = 0 \<and>
   x_scaled (estimate_ranges (Lorenz_init (0, 0, 0) (10, 28, 2.667) 0.01) 100000)
     = Inl ZeroDivisionError \<and>
   update (projr (StrangeAttractor_init [Lorenz_init (0, 0, 0) (10, 28, 2.667) 0.01] 0)) 1000
     = Inl ZeroDivisionError"
proof -
  define org where "org = Lorenz_init (0, 0, 0) (10, 28, 2.667) 0.01"
  define sa where "sa = projr (StrangeAttractor_init [org] 0)"
  have r: "x_range (estimate_ranges org 100000) = 0"
    unfolding org_def Lorenz_origin_calibrated by simp
  then have s: "x_scaled (estimate_ranges org 100000) = Inl ZeroDivisionError"
    by (simp add: x_scaled_def py_truediv_def)
  have "attractors sa ! a sa = estimate_ranges org 100000"
    by (simp add: sa_def StrangeAttractor_init_def choice_range_def)
  with r have "update sa 1000 = Inl ZeroDivisionError"
    by (intro update_degenerate) simp
  with r s show ?thesis
    unfolding sa_def org_def by simp
qed

text \<open>
  Claim C1, as the code has it. After any calibration each range is max minus min, with
  no fallback: on an axis where max equals min the range is 0 and every later scaled
  value of that axis raises \<open>ZeroDivisionError\<close>, wherever the coordinates are by then.
  The calibration itself never raises: the constructor of the controller calibrates
  every model of a nonempty list and returns.
\<close>

theorem degenerate_calibration:
  assumes "c = estimate_ranges att n"
  shows "x_range c = x_max c - x_min c \<and> y_range c = y_max c - y_min c \<and>
         z_range c = z_max c - z_min c \<and>
         (x_max c = x_min c \<longrightarrow>
            x_scaled (c\<lparr>x := vx, y := vy, z := vz\<rparr>) = Inl ZeroDivisionError) \<and>
         (y_max c = y_min c \<longrightarrow>
            y_scaled (c\<lparr>x := vx, y := vy, z := vz\<rparr>) = Inl ZeroDivisionError) \<and>
         (z_max c = z_min c \<longrightarrow>
            z_scaled (c\<lparr>x := vx, y := vy, z := vz\<rparr>) = Inl ZeroDivisionError) \<and>
         (atts \<noteq> [] \<longrightarrow>
            (\<exists>sa. StrangeAttractor_init atts rnd = Inr sa \<and>
                  attractors sa = map (\<lambda>att. estimate_ranges att 100000) atts))"
proof -
  have r: "x_range c = x_max c - x_min c" "y_range c = y_max c - y_min c"
    "z_range c = z_max c - z_min c"
    unfolding assms by (simp_all add: estimate_ranges_fields)
  have i: "\<exists>sa. StrangeAttractor_init atts rnd = Inr sa \<and>
                  attractors sa = map (\<lambda>att. estimate_ranges att 100000) atts"
    if "atts \<noteq> []"
    using that by (simp add: StrangeAttractor_init_def choice_range_def Let_def)
  show ?thesis
    using r i by (simp add: x_scaled_def y_scaled_def z_scaled_def py_truediv_def)
qed

theorem degenerate_calibration_witness:
  "x_scaled ((estimate_ranges (Lorenz_init (0, 0, 0) (10, 28, 2.667) 0.01) 100000)
      \<lparr>x := 1, y := 2, z := 3\<rparr>) = Inl ZeroDivisionError \<and>
   y_scaled ((estimate_ranges (Lorenz_init (0, 0, 0) (10, 28, 2.667) 0.01) 100000)
      \<lparr>x := 1, y := 2, z := 3\<rparr>) = Inl ZeroDivisionError \<and>
   z_scaled ((estimate_ranges (Lorenz_init (0, 0, 0) (10, 28, 2.667) 0.01) 100000)
      \<lparr>x := 1, y := 2, z := 3\<rparr>) = Inl ZeroDivisionError \<and>
   (\<exists>sa. StrangeAttractor_init [Lorenz_init (0, 0, 0) (10, 28, 2.667) 0.01, Lorenz_default] 0
            = Inr sa \<and>
         attractors sa = map (\<lambda>att. estimate_ranges att 100000)
            [Lorenz_init (0, 0, 0) (10, 28, 2.667) 0.01, Lorenz_default])"
proof -
  define org where "org = Lorenz_init (0, 0, 0) (10, 28, 2.667) 0.01"
  have e: "x_max (estimate_ranges org 100000) = x_min (estimate_ranges org 100000)"
    "y_max (estimate_ranges org 100000) = y_min (estimate_ranges org 100000)"
    "z_max (estimate_ranges org 100000) = z_min (estimate_ranges org 100000)"
    unfolding org_def Lorenz_origin_calibrated
    by (simp_all add: Lorenz_init_def Attractor_init_def)
  have n: "[org, Lorenz_default] \<noteq> []" by simp
  from degenerate_calibration [where att = org and n = 100000 and vx = 1 and vy = 2 and vz = 3
      and atts = "[org, Lorenz_default]" and rnd = 0, OF refl] e n
  show ?thesis unfolding org_def by blast
qed

lemma scale_facts:
  fixes lo hi v :: real
  assumes "lo < hi"
  shows "100 * (hi - lo) / (hi - lo) = 100"
    "hi < v \<Longrightarrow> 100 < 100 * (v - lo) / (hi - lo)"
    "v < lo \<Longrightarrow> 100 * (v - lo) / (hi - lo) < 0"
    "lo \<le> v \<Longrightarrow> v \<le> hi \<Longrightarrow> 0 \<le> 100 * (v - lo) / (hi - lo) \<and> 100 * (v - lo) / (hi - lo) \<le> 100"
  using assms by (simp_all add: field_simps)

lemma fresh_calibrated_ordered:
  assumes "c = estimate_ranges ((Attractor_init (p0, p1, p2) d nm)\<lparr>system := k\<rparr>) n"
  shows "x_min c \<le> x_max c" "y_min c \<le> y_max c" "z_min c \<le> z_max c"
  using estimate_loop_widens [of "(Attractor_init (p0, p1, p2) d nm)\<lparr>system := k\<rparr>" "nat n"]
  unfolding assms estimate_ranges_fields
  by (simp_all add: Attractor_init_def)

lemma Lorenz_default_2:
  "estimate_ranges Lorenz_default 2 =
     Lorenz_default\<lparr>x_min := 0, y_min := 99 / 100, z_min := 199145970669 / 200000000000,
       x_max := 189 / 1000, y_max := 2014156007 / 2000000000, z_max := 21 / 20,
       x_range := 189 / 1000, y_range := 34156007 / 2000000000,
       z_range := 10854029331 / 200000000000\<rparr>"
  by (simp add: estimate_ranges_def Let_def numeral_2_eq_2 track_def step_def advance_fields
      Lorenz_default_def Lorenz_init_def Attractor_init_def)

text \<open>
  Claim C5. Take a model as its constructor leaves it, calibrate it with any number of
  steps, and let it then be at any coordinates \<open>vx\<close>, \<open>vy\<close>, \<open>vz\<close>. On each axis
  whose observed maximum differs from its minimum the scaled value is
  \<open>100 * (value - min) / (max - min)\<close>, never an error and never clamped: it is 0 at the
  observed minimum, 100 at the observed maximum, above 100 for a value above the maximum
  and below 0 for a value below the minimum.
\<close>

theorem scaled_normalization:
  assumes "c = estimate_ranges ((Attractor_init (p0, p1, p2) d nm)\<lparr>system := k\<rparr>) n"
    and "live = c\<lparr>x := vx, y := vy, z := vz\<rparr>"
  shows
   "(x_max c \<noteq> x_min c \<longrightarrow>
       x_scaled live = Inr (100 * (vx - x_min c) / (x_max c - x_min c)) \<and>
       x_scaled (c\<lparr>x := x_min c\<rparr>) = Inr 0 \<and> x_scaled (c\<lparr>x := x_max c\<rparr>) = Inr 100 \<and>
       (x_max c < vx \<longrightarrow> 100 < 100 * (vx - x_min c) / (x_max c - x_min c)) \<and>
       (vx < x_min c \<longrightarrow> 100 * (vx - x_min c) / (x_max c - x_min c) < 0)) \<and>
    (y_max c \<noteq> y_min c \<longrightarrow>
       y_scaled live = Inr (100 * (vy - y_min c) / (y_max c - y_min c)) \<and>
       y_scaled (c\<lparr>y := y_min c\<rparr>) = Inr 0 \<and> y_scaled (c\<lparr>y := y_max c\<rparr>) = Inr 100 \<and>
       (y_max c < vy \<longrightarrow> 100 < 100 * (vy - y_min c) / (y_max c - y_min c)) \<and>
       (vy < y_min c \<longrightarrow> 100 * (vy - y_min c) / (y_max c - y_min c) < 0)) \<and>
    (z_max c \<noteq> z_min c \<longrightarrow>
       z_scaled live = Inr (100 * (vz - z_min c) / (z_max c - z_min c)) \<and>
       z_scaled (c\<lparr>z := z_min c\<rparr>) = Inr 0 \<and> z_scaled (c\<lparr>z := z_max c\<rparr>) = Inr 100 \<and>
       (z_max c < vz \<longrightarrow> 100 < 100 * (vz - z_min c) / (z_max c - z_min c)) \<and>
       (vz < z_min c \<longrightarrow> 100 * (vz - z_min c) / (z_max c - z_min c) < 0))"
proof -
  note o = fresh_calibrated_ordered [OF assms(1)]
  have r: "x_range c = x_max c - x_min c" "y_range c = y_max c - y_min c"
    "z_range c = z_max c - z_min c"
    unfolding assms(1) by (simp_all add: estimate_ranges_fields)
  have X: "x_scaled live = Inr (100 * (vx - x_min c) / (x_max c - x_min c)) \<and>
       x_scaled (c\<lparr>x := x_min c\<rparr>) = Inr 0 \<and> x_scaled (c\<lparr>x := x_max c\<rparr>) = Inr 100 \<and>
       (x_max c < vx \<longrightarrow> 100 < 100 * (vx - x_min c) / (x_max c - x_min c)) \<and>
       (vx < x_min c \<longrightarrow> 100 * (vx - x_min c) / (x_max c - x_min c) < 0)"
    if "x_max c \<noteq> x_min c"
  proof -
    from that o(1) have lt: "x_min c < x_max c" by simp
    from scale_facts [OF lt] lt show ?thesis
      by (simp add: assms(2) x_scaled_def py_truediv_def r)
  qed
  have Y: "y_scaled live = Inr (100 * (vy - y_min c) / (y_max c - y_min c)) \<and>
       y_scaled (c\<lparr>y := y_min c\<rparr>) = Inr 0 \<and> y_scaled (c\<lparr>y := y_max c\<rparr>) = Inr 100 \<and>
       (y_max c < vy \<longrightarrow> 100 < 100 * (vy - y_min c) / (y_max c - y_min c)) \<and>
       (vy < y_min c \<longrightarrow> 100 * (vy - y_min c) / (y_max c - y_min c) < 0)"
    if "y_max c \<noteq> y_min c"
  proof -
    from that o(2) have lt: "y_min c < y_max c" by simp
    from scale_facts [OF lt] lt show ?thesis
      by (simp add: assms(2) y_scaled_def py_truediv_def r)
  qed
  have Z: "z_scaled live = Inr (100 * (vz - z_min c) / (z_max c - z_min c)) \<and>
       z_scaled (c\<lparr>z := z_min c\<rparr>) = Inr 0 \<and> z_scaled (c\<lparr>z := z_max c\<rparr>) = Inr 100 \<and>
       (z_max c < vz \<longrightarrow> 100 < 100 * (vz - z_min c) / (z_max c - z_min c)) \<and>
       (vz < z_min c \<longrightarrow> 100 * (vz - z_min c) / (z_max c - z_min c) < 0)"
    if "z_max c \<noteq> z_min c"
  proof -
    from that o(3) have lt: "z_min c < z_max c" by simp
    from scale_facts [OF lt] lt show ?thesis
      by (simp add: assms(2) z_scaled_def py_truediv_def r)
  qed
  from X Y Z show ?thesis by blast
qed

theorem scaled_normalization_witness:
  "x_scaled ((estimate_ranges Lorenz_default 2)\<lparr>x := 1, y := 2, z := 2\<rparr>) = Inr (100000 / 189) \<and>
   y_scaled ((estimate_ranges Lorenz_default 2)\<lparr>x := 1, y := 2, z := 2\<rparr>)
     = Inr (202000000000 / 34156007) \<and>
   z_scaled ((estimate_ranges Lorenz_default 2)\<lparr>x := 1, y := 2, z := 2\<rparr>)
     = Inr (20085402933100 / 10854029331) \<and>
   x_scaled ((estimate_ranges Lorenz_default 2)\<lparr>x := - 1, y := 0, z := 0\<rparr>)
     = Inr (- (100000 / 189)) \<and>
   y_scaled ((estimate_ranges Lorenz_default 2)\<lparr>x := - 1, y := 0, z := 0\<rparr>)
     = Inr (- (198000000000 / 34156007)) \<and>
   z_scaled ((estimate_ranges Lorenz_default 2)\<lparr>x := - 1, y := 0, z := 0\<rparr>)
     = Inr (- (19914597066900 / 10854029331)) \<and>
   x_scaled ((estimate_ranges Lorenz_default 2)\<lparr>x := 189 / 1000\<rparr>) = Inr 100 \<and>
   y_scaled ((estimate_ranges Lorenz_default 2)\<lparr>y := 99 / 100\<rparr>) = Inr 0"
proof -
  have f: "estimate_ranges Lorenz_default 2 =
      estimate_ranges ((Attractor_init (0, 1, 1.05) 0.01 ''Lorenz'')
        \<lparr>system := Lorenz 10 28 2.667\<rparr>) 2"
    by (simp add: Lorenz_default_def Lorenz_init_def)
  note t1 = scaled_normalization [OF f refl, where vx = 1 and vy = 2 and vz = 2]
  note t2 = scaled_normalization [OF f refl, where vx = "- 1" and vy = 0 and vz = 0]
  show ?thesis
    using t1 t2 unfolding Lorenz_default_2
    by (simp add: Lorenz_default_def Lorenz_init_def Attractor_init_def)
qed

end
